theory Spec2Isabelle
  imports Main "HOL-Library.Sublist"
begin

section \<open>The token endpoints\<close>

text \<open>
  Two route handlers mint LiveKit access tokens: \<open>POST\<close> (\<open>src/unnamed/part_000\<close>) for a
  room and an identity given in the request body, and \<open>GET\<close> (\<open>src/unnamed/part_001\<close>),
  which creates a fresh room on the media transport and mints a token for the user id of
  the query string.
\<close>

subsection \<open>Environment, requests, tokens, responses\<close>

text \<open>\<open>process.env\<close>: a variable is a string or \<open>undefined\<close>.\<close>

record env =
  LIVEKIT_API_KEY :: "string option"
  LIVEKIT_API_SECRET :: "string option"
  NEXT_PUBLIC_LIVEKIT_URL :: "string option"
  LIVEKIT_URL :: "string option"

text \<open>
  JavaScript's \<open>!v\<close> for a value that is a string, \<open>null\<close> or \<open>undefined\<close>: true when
  the value is missing or is the empty string.
\<close>

definition falsy :: "string option \<Rightarrow> bool" where
  "falsy v = (case v of None \<Rightarrow> True | Some s \<Rightarrow> s = [])"

text \<open>
  The body of a token request after \<open>request.json()\<close> and the destructuring
  \<open>{ room, identity }\<close>: each field is a string or absent.
\<close>

record token_request =
  body_room :: "string option"
  body_identity :: "string option"

text \<open>The \<open>VideoGrant\<close> object handed to \<open>addGrant\<close>; \<open>POST\<close> leaves
  \<open>canUpdateOwnMetadata\<close> unset.\<close>

record video_grant =
  room :: string
  roomJoin :: bool
  canPublish :: bool
  canSubscribe :: bool
  canPublishData :: bool
  canUpdateOwnMetadata :: "bool option"

text \<open>
  The SDK's \<open>AccessToken\<close> object: the key and secret it signs with, the options of the
  constructor (\<open>identity\<close>, \<open>name\<close>, \<open>ttl\<close>) and the video grant stored by \<open>addGrant\<close>.
\<close>

record access_token =
  apiKey :: "string option"
  apiSecret :: "string option"
  identity :: string
  name :: "string option"
  ttl :: "string option"
  video :: "video_grant option"

definition AccessToken ::
  "string option \<Rightarrow> string option \<Rightarrow> string \<Rightarrow> string option \<Rightarrow> string option \<Rightarrow> access_token" where
  "AccessToken k s i n t =
     \<lparr>apiKey = k, apiSecret = s, identity = i, name = n, ttl = t, video = None\<rparr>"

definition addGrant :: "access_token \<Rightarrow> video_grant \<Rightarrow> access_token" where
  "addGrant tok g = tok\<lparr>video := Some g\<rparr>"

text \<open>
  \<open>toJwt\<close> belongs to the SDK. It either throws or returns the signed encoding of the
  token object. Whether it throws is a parameter \<open>signs\<close> of the handlers; the encoding is
  the constructor \<open>Jwt\<close>, so that the claims a token carries can be read back from it, as
  from a decoded JWT (signature and timestamps are left out).
\<close>

datatype jwt = Jwt access_token

datatype json_body = TokenBody jwt | RoomTokenBody string jwt | ErrorBody string

datatype response = Json nat json_body

fun status_code :: "response \<Rightarrow> nat" where
  "status_code (Json c b) = c"

fun issued :: "response \<Rightarrow> jwt option" where
  "issued (Json c (TokenBody j)) = Some j"
| "issued (Json c (RoomTokenBody r j)) = Some j"
| "issued (Json c (ErrorBody m)) = None"

subsection \<open>\<open>POST\<close>: a token for a room and an identity\<close>

text \<open>
  The handler returns its response and what it wrote to the console (the message of each
  \<open>console.log\<close>/\<open>console.error\<close> call, without the values appended to it). A request
  whose body cannot be read (\<open>request.json()\<close> throws) is \<open>None\<close>: the \<open>catch\<close> block
  answers it, as it answers a throwing \<open>toJwt\<close>.
\<close>

definition POST :: "env \<Rightarrow> (access_token \<Rightarrow> bool) \<Rightarrow> token_request option \<Rightarrow> response \<times> string list" where
  "POST e signs req =
    (case req of
       None \<Rightarrow>
         (Json 500 (ErrorBody ''Failed to generate token''), [''[v0] Error generating token:''])
     | Some b \<Rightarrow>
         if falsy (body_room b) \<or> falsy (body_identity b) then
           (Json 400 (ErrorBody ''Room and identity are required''),
            [''[v0] Token request for room:'', ''[v0] Missing room or identity''])
         else if falsy (LIVEKIT_API_KEY e) \<or> falsy (LIVEKIT_API_SECRET e)
                 \<or> falsy (NEXT_PUBLIC_LIVEKIT_URL e) then
           (Json 500 (ErrorBody
              (''LiveKit credentials not configured. Please set LIVEKIT_API_KEY, ''
               @ ''LIVEKIT_API_SECRET, and NEXT_PUBLIC_LIVEKIT_URL environment variables.'')),
            [''[v0] Token request for room:'', ''[v0] Environment check - API Key:'',
             ''[v0] Missing LiveKit credentials''])
         else
           (let tok = addGrant
                  (AccessToken (LIVEKIT_API_KEY e) (LIVEKIT_API_SECRET e)
                     (the (body_identity b)) None (Some ''24h''))
                  \<lparr>room = the (body_room b), roomJoin = True, canPublish = True,
                   canSubscribe = True, canPublishData = True, canUpdateOwnMetadata = None\<rparr>
            in if signs tok then
                 (Json 200 (TokenBody (Jwt tok)),
                  [''[v0] Token request for room:'', ''[v0] Environment check - API Key:'',
                   ''[v0] Token generated successfully''])
               else
                 (Json 500 (ErrorBody ''Failed to generate token''),
                  [''[v0] Token request for room:'', ''[v0] Environment check - API Key:'',
                   ''[v0] Error generating token:''])))"

subsection \<open>\<open>GET\<close>: a fresh room and a token for it\<close>

text \<open>
  The media transport behind \<open>RoomServiceClient\<close>: the rooms it holds, how many
  \<open>createRoom\<close> requests it has received, and whether each coming request succeeds
  (\<open>outcomes\<close>, first request first; a request beyond the list fails).
\<close>

record transport =
  rooms :: "string list"
  calls :: nat
  outcomes :: "bool list"

text \<open>
  \<open>roomClient.createRoom\<close>, for a client built from the key and the secret of the
  environment. The client signs every request with them: when the key or the secret is
  unset the SDK throws "api-key and api-secret must be set" before any request is sent,
  and the transport receives nothing. Otherwise the request reaches the transport. The
  result is the message of the exception, \<open>None\<close> when the call returns.
\<close>

definition createRoom ::
  "string option \<Rightarrow> string option \<Rightarrow> transport \<Rightarrow> string \<Rightarrow> string option \<times> transport" where
  "createRoom k s t nm =
    (if falsy k \<or> falsy s then (Some ''api-key and api-secret must be set'', t)
     else
       (case outcomes t of
          [] \<Rightarrow> (Some ''createRoom'', t\<lparr>calls := Suc (calls t)\<rparr>)
        | ok # rest \<Rightarrow>
            (if ok then None else Some ''createRoom'',
             t\<lparr>rooms := (if ok then nm # rooms t else rooms t),
               calls := Suc (calls t), outcomes := rest\<rparr>)))"

text \<open>
  \<open>roomName\<close> is the value \<open>uuid()\<close> returns, \<open>userid\<close> the query parameter
  (\<open>searchParams.get\<close> gives \<open>null\<close> when it is absent). Every \<open>throw\<close> inside the
  \<open>try\<close> block, and every exception of the transport or of the SDK, ends in the
  \<open>catch\<close> block, which writes to the console and returns nothing: the handler's result is
  then \<open>undefined\<close>, here \<open>None\<close>. The console holds the user id and, after a failure, the
  line of \<open>console.log("Error ", error)\<close>: with the message of the error where it is
  known, with the name of the call that threw otherwise.
\<close>

definition GET ::
  "env \<Rightarrow> (access_token \<Rightarrow> bool) \<Rightarrow> string \<Rightarrow> string option \<Rightarrow> transport
     \<Rightarrow> response option \<times> string list \<times> transport" where
  "GET e signs roomName userid t =
    (case userid of
       None \<Rightarrow> (None, [''null'', ''Error error no user id''], t)
     | Some u \<Rightarrow>
         if u = [] then (None, [u, ''Error error no user id''], t)
         else if falsy (LIVEKIT_URL e) then (None, [u, ''Error Missing env variable! ''], t)
         else
           (case createRoom (LIVEKIT_API_KEY e) (LIVEKIT_API_SECRET e) t roomName of
              (Some msg, t') \<Rightarrow> (None, [u, ''Error '' @ msg], t')
            | (None, t') \<Rightarrow>
                (let grant = \<lparr>room = roomName, roomJoin = True, canPublish = True,
                              canSubscribe = True, canPublishData = True,
                              canUpdateOwnMetadata = Some True\<rparr>;
                     tok = addGrant
                       (AccessToken (LIVEKIT_API_KEY e) (LIVEKIT_API_SECRET e) u (Some u) None)
                       grant
                 in if signs tok then (Some (Json 200 (RoomTokenBody roomName (Jwt tok))), [u], t')
                    else (None, [u, ''Error toJwt''], t'))))"

text \<open>
  How the media server reads a token: it admits identity \<open>i\<close> to room \<open>r\<close> when the
  token is made out to \<open>i\<close> and its video grant allows joining \<open>r\<close>.
\<close>

fun authorizes :: "jwt \<Rightarrow> string \<Rightarrow> string \<Rightarrow> bool" where
  "authorizes (Jwt tok) i r =
     (identity tok = i \<and> (case video tok of None \<Rightarrow> False | Some g \<Rightarrow> roomJoin g \<and> room g = r))"

section \<open>Participants: agents and customers\<close>

text \<open>
  \<open>CallRoomContent\<close> (\<open>call-interface.tsx\<close>) and \<open>ParticipantMonitor\<close>
  (\<open>participant-monitor.tsx\<close>) split the participants of the room with the same two
  filters on \<open>p.identity.includes("agent")\<close>. Of a participant the filters read the
  identity only.
\<close>

record participant =
  p_identity :: string
  p_isSpeaking :: bool

text \<open>\<open>String.prototype.includes\<close>: the argument occurs somewhere in the string.\<close>

fun includes_str :: "string \<Rightarrow> string \<Rightarrow> bool" where
  "includes_str [] sub = (sub = [])"
| "includes_str (c # cs) sub = (prefix sub (c # cs) \<or> includes_str cs sub)"

definition agents :: "participant list \<Rightarrow> participant list" where
  "agents participants = filter (\<lambda>p. includes_str (p_identity p) ''agent'') participants"

definition customers :: "participant list \<Rightarrow> participant list" where
  "customers participants = filter (\<lambda>p. \<not> includes_str (p_identity p) ''agent'') participants"

section \<open>The transfer panel of the call page\<close>

subsection \<open>\<open>TransferStatus\<close>: stages on timers\<close>

text \<open>
  The component (\<open>transfer-status.tsx\<close>) keeps a stage and a count of seconds. Its effect
  starts an interval of 1000 ms and a chain of timeouts: 2000 ms to \<open>briefing\<close>, then
  5000 ms to \<open>connecting\<close>, then 3000 ms to \<open>completed\<close>. Time is counted in
  milliseconds. \<open>ticker\<close> is the time left until the interval fires next (\<open>None\<close>: no
  interval is running); a pending timeout is the time left and the stage it will set.
\<close>

datatype stage = requested | briefing | connecting | completed

record transfer_status =
  transferStage :: stage
  timeElapsed :: nat
  ticker :: "nat option"
  timeouts :: "(nat \<times> stage) list"

text \<open>The two \<open>useState\<close> initial values; no timer is running before the effect.\<close>

definition initial_status :: transfer_status where
  "initial_status = \<lparr>transferStage = requested, timeElapsed = 0, ticker = None, timeouts = []\<rparr>"

text \<open>
  The body of \<open>useEffect\<close> for a value of the prop \<open>isTransferRequested\<close>, and the
  cleanup it returns when the prop was true: \<open>clearInterval(timer)\<close> and
  \<open>clearTimeout(stageTimer)\<close>, the outer timeout, which is the one that sets \<open>briefing\<close>.
  The inner timeouts are not cleared.
\<close>

definition effect :: "bool \<Rightarrow> transfer_status \<Rightarrow> transfer_status" where
  "effect isTransferRequested s =
     (if \<not> isTransferRequested then s\<lparr>transferStage := requested, timeElapsed := 0\<rparr>
      else s\<lparr>ticker := Some 1000, timeouts := timeouts s @ [(2000, briefing)]\<rparr>)"

definition cleanup :: "transfer_status \<Rightarrow> transfer_status" where
  "cleanup s = s\<lparr>ticker := None, timeouts := filter (\<lambda>(d, g). g \<noteq> briefing) (timeouts s)\<rparr>"

text \<open>A timeout fires: it sets its stage and starts the next timeout of the chain.\<close>

fun fire :: "stage \<Rightarrow> transfer_status \<Rightarrow> transfer_status" where
  "fire briefing s = s\<lparr>transferStage := briefing, timeouts := timeouts s @ [(5000, connecting)]\<rparr>"
| "fire connecting s = s\<lparr>transferStage := connecting, timeouts := timeouts s @ [(3000, completed)]\<rparr>"
| "fire g s = s\<lparr>transferStage := g\<rparr>"

text \<open>One millisecond passes: the interval and the timeouts that are due fire.\<close>

definition tick :: "transfer_status \<Rightarrow> transfer_status" where
  "tick s =
     (case ticker s of
        None \<Rightarrow> s
      | Some d \<Rightarrow>
          if d \<le> 1 then s\<lparr>timeElapsed := Suc (timeElapsed s), ticker := Some 1000\<rparr>
          else s\<lparr>ticker := Some (d - 1)\<rparr>)"

definition run_timeouts :: "transfer_status \<Rightarrow> transfer_status" where
  "run_timeouts s =
     fold fire (map snd (filter (\<lambda>(d, g). d \<le> 1) (timeouts s)))
       (s\<lparr>timeouts := map (\<lambda>(d, g). (d - 1, g)) (filter (\<lambda>(d, g). 1 < d) (timeouts s))\<rparr>)"

definition millisecond :: "transfer_status \<Rightarrow> transfer_status" where
  "millisecond s = run_timeouts (tick s)"

primrec elapse :: "nat \<Rightarrow> transfer_status \<Rightarrow> transfer_status" where
  "elapse 0 s = s"
| "elapse (Suc n) s = elapse n (millisecond s)"

text \<open>The cancel button is rendered in stage \<open>requested\<close>, when a handler was passed.\<close>

definition cancel_button :: "transfer_status \<Rightarrow> bool \<Rightarrow> bool" where
  "cancel_button s onCancelTransfer = (transferStage s = requested \<and> onCancelTransfer)"

subsection \<open>\<open>CallRoomContent\<close>: requesting and cancelling\<close>

text \<open>
  The page holds the flag \<open>isTransferRequested\<close> and renders \<open>TransferStatus\<close> only while
  the flag is set, always with \<open>handleCancelTransfer\<close> as its cancel handler: \<open>panel\<close> is
  the mounted component, \<open>None\<close> when there is none. \<open>toasts\<close> are the titles shown.
\<close>

record call_room =
  isTransferRequested :: bool
  panel :: "transfer_status option"
  toasts :: "string list"

text \<open>
  What rendering does after the flag has changed: with the flag set and no panel on the
  page, \<open>TransferStatus\<close> is mounted and its effect runs; with the flag cleared the panel
  is unmounted (its cleanup runs, and a timeout that is still pending can only set the
  state of a component that is gone).
\<close>

definition render :: "call_room \<Rightarrow> call_room" where
  "render c =
     c\<lparr>panel :=
         (if isTransferRequested c then
            (case panel c of None \<Rightarrow> Some (effect True initial_status) | Some s \<Rightarrow> Some s)
          else None)\<rparr>"

text \<open>
  \<open>handleTransferRequest\<close> up to its \<open>await fetch\<close>, and what follows the answer of
  \<open>/api/request-transfer\<close> (\<open>ok\<close>: the response was received with a success status).
\<close>

definition handleTransferRequest :: "call_room \<Rightarrow> call_room" where
  "handleTransferRequest c =
     render (c\<lparr>isTransferRequested := True, toasts := toasts c @ [''Transfer Requested'']\<rparr>)"

definition handleTransferResponse :: "bool \<Rightarrow> call_room \<Rightarrow> call_room" where
  "handleTransferResponse ok c =
     (if ok then c\<lparr>toasts := toasts c @ [''Transfer Initiated'']\<rparr>
      else render (c\<lparr>isTransferRequested := False, toasts := toasts c @ [''Transfer Failed'']\<rparr>))"

definition handleCancelTransfer :: "call_room \<Rightarrow> call_room" where
  "handleCancelTransfer c =
     render (c\<lparr>isTransferRequested := False, toasts := toasts c @ [''Transfer Cancelled'']\<rparr>)"

text \<open>
  A click on the cancel button: \<open>None\<close> when the button is not on the page, otherwise the
  page after \<open>handleCancelTransfer\<close>.
\<close>

definition click_cancel :: "call_room \<Rightarrow> call_room option" where
  "click_cancel c =
     (case panel c of
        None \<Rightarrow> None
      | Some s \<Rightarrow> if cancel_button s True then Some (handleCancelTransfer c) else None)"

text \<open>Time passes on the page: the timers of the mounted panel run.\<close>

definition wait :: "nat \<Rightarrow> call_room \<Rightarrow> call_room" where
  "wait n c = c\<lparr>panel := map_option (elapse n) (panel c)\<rparr>"

section \<open>The demo page: caller, Agent A, Agent B\<close>

text \<open>
  The page component of \<open>src/unnamed/part_001\<close> drives a warm transfer from one browser
  tab: it asks the backend at \<open>API_BASE\<close> for tokens and connects a caller, Agent A and
  Agent B to rooms of the media server. The backend is not part of these sources; its
  responses are inputs of the handlers.

  A token is modelled by what it admits, an identity and a room; a connected \<open>Room\<close>
  object by the connection it holds. The media server is the set of connections.
\<close>

type_synonym connection = "string \<times> string"

record InitiateResp =
  ir_room_id :: string
  caller_token :: connection

record ConnectAgentResp =
  ca_room_id :: string
  agent_token :: connection

record TransferResp =
  original_room_id :: string
  transfer_room_id :: string
  agent_a_token :: connection
  agent_b_token :: connection
  call_summary :: string

record CompleteTransferResp =
  ct_room_id :: string
  ct_agent_b_token :: connection
  ct_status :: string

record page =
  callerRoom :: "connection option"
  agentARoom :: "connection option"
  agentBRoom :: "connection option"
  origRoomId :: string
  transferInfo :: "TransferResp option"
  summary :: string
  agentATrack :: bool
  status :: string

type_synonym client = "page \<times> connection set"

definition initial_page :: page where
  "initial_page =
     \<lparr>callerRoom = None, agentARoom = None, agentBRoom = None, origRoomId = [],
      transferInfo = None, summary = [], agentATrack = False, status = ''idle''\<rparr>"

text \<open>
  \<open>connectRoom\<close>: \<open>room.connect\<close> throws when the media server does not admit the token
  (\<open>admits\<close>); otherwise the connection exists and the \<open>Room\<close> object is returned.
\<close>

definition connectRoom ::
  "(connection \<Rightarrow> bool) \<Rightarrow> connection \<Rightarrow> connection set \<Rightarrow> (connection \<times> connection set) option" where
  "connectRoom admits token w = (if admits token then Some (token, insert token w) else None)"

text \<open>
  Each handler is an \<open>async\<close> function. Its model returns the states the page and the media
  server go through, the state at the click first and the state in which the handler
  settles last; a new state is listed after each step that changes the connections or is
  followed by an \<open>await\<close>. The response is \<open>None\<close> when \<open>axios.post\<close> throws: the handler
  stops there, as it does when \<open>connectRoom\<close> throws.
\<close>

definition initiateCall ::
  "(connection \<Rightarrow> bool) \<Rightarrow> InitiateResp option \<Rightarrow> client \<Rightarrow> client list" where
  "initiateCall admits resp c =
    (case c of (p, w) \<Rightarrow>
      (case resp of
         None \<Rightarrow> [(p, w)]
       | Some r \<Rightarrow>
           (let p1 = p\<lparr>origRoomId := ir_room_id r\<rparr> in
            case connectRoom admits (caller_token r) w of
              None \<Rightarrow> [(p, w), (p1, w)]
            | Some (caller, w1) \<Rightarrow>
                [(p, w), (p1, w),
                 (p1\<lparr>callerRoom := Some caller, status := ''caller_connected''\<rparr>, w1)])))"

definition connectAgentA ::
  "(connection \<Rightarrow> bool) \<Rightarrow> ConnectAgentResp option \<Rightarrow> client \<Rightarrow> client list" where
  "connectAgentA admits resp c =
    (case c of (p, w) \<Rightarrow>
      if origRoomId p = [] then [(p, w)]
      else
        (case resp of
           None \<Rightarrow> [(p, w)]
         | Some r \<Rightarrow>
             (case connectRoom admits (agent_token r) w of
                None \<Rightarrow> [(p, w)]
              | Some (conn, w1) \<Rightarrow>
                  [(p, w), (p\<lparr>agentARoom := Some conn, status := ''agent_a_connected''\<rparr>, w1)])))"

definition initiateTransfer ::
  "(connection \<Rightarrow> bool) \<Rightarrow> TransferResp option \<Rightarrow> client \<Rightarrow> client list" where
  "initiateTransfer admits resp c =
    (case c of (p, w) \<Rightarrow>
      if origRoomId p = [] then [(p, w)]
      else
        (case resp of
           None \<Rightarrow> [(p, w)]
         | Some r \<Rightarrow>
             (let p1 = p\<lparr>transferInfo := Some r, summary := call_summary r\<rparr> in
              case connectRoom admits (agent_a_token r) w of
                None \<Rightarrow> [(p, w), (p1, w)]
              | Some (roomA, w1) \<Rightarrow>
                  (let p2 = p1\<lparr>agentARoom := Some roomA\<rparr> in
                   case connectRoom admits (agent_b_token r) w1 of
                     None \<Rightarrow> [(p, w), (p1, w), (p2, w1)]
                   | Some (roomB, w2) \<Rightarrow>
                       [(p, w), (p1, w), (p2, w1),
                        (p2\<lparr>agentBRoom := Some roomB, status := ''transfer_room_connected''\<rparr>,
                         w2)]))))"

definition speakSummaryViaMic :: "client \<Rightarrow> client list" where
  "speakSummaryViaMic c =
    (case c of (p, w) \<Rightarrow>
      if agentARoom p = None \<or> summary p = [] then [(p, w)]
      else [(p, w), (p\<lparr>agentATrack := True\<rparr>, w)])"

text \<open>
  \<open>leaveTransferAndComplete\<close>. What the backend does to the connections while it serves
  \<open>complete-transfer\<close> is the parameter \<open>backend\<close>. The handler reads \<open>agentBRoom\<close>,
  \<open>agentARoom\<close> and \<open>agentATrack\<close> as they were at the click.
\<close>

definition leaveTransferAndComplete ::
  "(connection set \<Rightarrow> connection set) \<Rightarrow> (connection \<Rightarrow> bool) \<Rightarrow> CompleteTransferResp option
     \<Rightarrow> client \<Rightarrow> client list" where
  "leaveTransferAndComplete backend admits resp c =
    (case c of (p, w) \<Rightarrow>
      if origRoomId p = [] \<or> transferInfo p = None then [(p, w)]
      else
        (case resp of
           None \<Rightarrow> [(p, w)]
         | Some r \<Rightarrow>
             (let w1 = backend w;
                  p2 = (case agentBRoom p of None \<Rightarrow> p | Some b \<Rightarrow> p\<lparr>agentBRoom := None\<rparr>);
                  w2 = (case agentBRoom p of None \<Rightarrow> w1 | Some b \<Rightarrow> w1 - {b})
              in case connectRoom admits (ct_agent_b_token r) w2 of
                   None \<Rightarrow> [(p, w), (p, w1), (p2, w2)]
                 | Some (agentBOrig, w3) \<Rightarrow>
                     (let p3 = p2\<lparr>agentBRoom := Some agentBOrig\<rparr>;
                          p4 = (case agentARoom p of
                                  None \<Rightarrow> p3
                                | Some a \<Rightarrow> p3\<lparr>agentATrack := False, agentARoom := None\<rparr>);
                          w4 = (case agentARoom p of None \<Rightarrow> w3 | Some a \<Rightarrow> w3 - {a})
                      in [(p, w), (p, w1), (p2, w2), (p3, w3),
                          (p4\<lparr>status := ''transfer_completed''\<rparr>, w4)]))))"

text \<open>A handler run to its end.\<close>

definition settled :: "client list \<Rightarrow> client" where
  "settled tr = last tr"


text \<open>
  The demo clicked through in order, up to the transfer room, with a backend that answers
  as in the scenario of the specification: caller \<open>demoCaller\<close> and Agent \<open>A1\<close> in room
  \<open>R1\<close>, transfer room \<open>R2\<close> for \<open>A1\<close> and \<open>B1\<close>. The media server admits every token.
\<close>

definition demo_before_handoff :: client where
  "demo_before_handoff =
     settled (initiateTransfer (\<lambda>t. True)
       (Some \<lparr>original_room_id = ''R1'', transfer_room_id = ''R2'',
              agent_a_token = (''A1'', ''R2''), agent_b_token = (''B1'', ''R2''),
              call_summary = ''forgot password''\<rparr>)
       (settled (connectAgentA (\<lambda>t. True)
          (Some \<lparr>ca_room_id = ''R1'', agent_token = (''A1'', ''R1'')\<rparr>)
          (settled (initiateCall (\<lambda>t. True)
             (Some \<lparr>ir_room_id = ''R1'', caller_token = (''demoCaller'', ''R1'')\<rparr>)
             (initial_page, {}))))))"

definition demo_complete :: CompleteTransferResp where
  "demo_complete = \<lparr>ct_room_id = ''R1'', ct_agent_b_token = (''B1'', ''R1''), ct_status = ''completed''\<rparr>"

section \<open>The transfer state machine of the specification\<close>

text \<open>
  Modelled from the spec: the Transfer State Machine of section 4.4 is the backend behind
  \<open>API_BASE\<close>, which is not among the sources; only its callers (the demo page) and the
  types of its responses are. The definitions below follow the state table of the
  specification row by row.
\<close>

datatype transfer_state =
  Requested | Briefing | SummaryReady | AwaitingAgentB | HandingOff | Completed | Cancelled | Failed

text \<open>
  Modelled from the spec: a Transfer (section 3) with its outgoing and incoming agent, its
  briefing Room and its summary text, \<open>None\<close> until they exist; with it the original Room
  of its Call, the Grants issued for it so far (identity and room, oldest first), the
  briefing Rooms that exist and the agents of the Call.
\<close>

record transfer =
  state :: transfer_state
  agent_a :: string
  agent_b :: string
  original_room :: string
  briefing_room :: "string option"
  summary_text :: "string option"
  grants :: "(string \<times> string) list"
  registry :: "string list"
  call_agents :: "string list"

text \<open>
  Modelled from the spec: the signals that drive the machine, one for each "entered when"
  of the state table: the briefing Room has been created (with its identifier), the
  summary has been obtained (with its text), Agent B's briefing-room Grant is to be
  issued, "complete transfer" has been requested, the hand-off has been confirmed (Agent
  B joined, Agent A removed), cancellation has been requested, an exit action has raised
  an unrecoverable error.
\<close>

datatype signal =
  BriefingRoomCreated string
  | SummaryObtained string
  | GrantAgentB
  | CompleteTransfer
  | HandoffConfirmed
  | CancelTransfer
  | ExitActionFailed

text \<open>
  Modelled from the spec: the error of an operation requested in an incompatible state
  (section 7).
\<close>

datatype transfer_error = InvalidStateError

text \<open>Modelled from the spec: a Transfer as \<open>requestTransfer\<close> creates it.\<close>

definition new_transfer :: "string \<Rightarrow> string \<Rightarrow> string \<Rightarrow> transfer" where
  "new_transfer a b orig =
     \<lparr>state = Requested, agent_a = a, agent_b = b, original_room = orig,
      briefing_room = None, summary_text = None, grants = [], registry = [],
      call_agents = [a]\<rparr>"

text \<open>
  Modelled from the spec: the column "Next states" of the state table; terminal states
  have none.
\<close>

fun next_states :: "transfer_state \<Rightarrow> transfer_state set" where
  "next_states Requested = {Briefing, Cancelled}"
| "next_states Briefing = {SummaryReady, Failed}"
| "next_states SummaryReady = {AwaitingAgentB, Failed}"
| "next_states AwaitingAgentB = {HandingOff, Cancelled, Failed}"
| "next_states HandingOff = {Completed, Failed}"
| "next_states Completed = {}"
| "next_states Cancelled = {}"
| "next_states Failed = {}"

text \<open>
  Modelled from the spec: what every terminal transition does to the briefing Room (it is
  destroyed; destroying a Room that does not exist is a no-op).
\<close>

definition destroy_briefing :: "transfer \<Rightarrow> transfer" where
  "destroy_briefing t =
     (case briefing_room t of
        None \<Rightarrow> t
      | Some r \<Rightarrow> t\<lparr>registry := removeAll r (registry t)\<rparr>)"

text \<open>
  Modelled from the spec: one transition of the state table (sections 4.4 and 7). A
  signal that the state does not accept fails with \<open>InvalidStateError\<close>; the briefing
  Room is distinct from the original Room. A Grant that the table lists as an exit action
  of a state is issued in the transition that the table has follow it: Agent B's Grant
  for the briefing Room on leaving \<open>SummaryReady\<close>, Agent B's Grant for the original Room
  with the "complete transfer" request, before the hand-off is confirmed.
\<close>

fun transition :: "signal \<Rightarrow> transfer \<Rightarrow> transfer_error + transfer" where
  "transition (BriefingRoomCreated r) t =
     (if state t = Requested \<and> r \<noteq> original_room t then
        Inr (t\<lparr>state := Briefing, briefing_room := Some r, registry := registry t @ [r],
               grants := grants t @ [(agent_a t, r)]\<rparr>)
      else Inl InvalidStateError)"
| "transition (SummaryObtained text) t =
     (if state t = Briefing then Inr (t\<lparr>state := SummaryReady, summary_text := Some text\<rparr>)
      else Inl InvalidStateError)"
| "transition GrantAgentB t =
     (case (state t, briefing_room t) of
        (SummaryReady, Some r) \<Rightarrow>
          Inr (t\<lparr>state := AwaitingAgentB, grants := grants t @ [(agent_b t, r)]\<rparr>)
      | _ \<Rightarrow> Inl InvalidStateError)"
| "transition CompleteTransfer t =
     (if state t = AwaitingAgentB then
        Inr (t\<lparr>state := HandingOff, grants := grants t @ [(agent_b t, original_room t)]\<rparr>)
      else Inl InvalidStateError)"
| "transition HandoffConfirmed t =
     (if state t = HandingOff then
        Inr ((destroy_briefing t)
               \<lparr>state := Completed,
                call_agents := removeAll (agent_a t) (call_agents t) @ [agent_b t]\<rparr>)
      else Inl InvalidStateError)"
| "transition CancelTransfer t =
     (if state t = Requested \<or> state t = AwaitingAgentB then
        Inr ((destroy_briefing t)\<lparr>state := Cancelled\<rparr>)
      else Inl InvalidStateError)"
| "transition ExitActionFailed t =
     (if state t \<in> {Briefing, SummaryReady, AwaitingAgentB, HandingOff} then
        Inr ((destroy_briefing t)\<lparr>state := Failed\<rparr>)
      else Inl InvalidStateError)"

text \<open>
  Modelled from the spec: a run of the machine. A signal that fails leaves the Transfer
  as it was.
\<close>

fun run :: "signal list \<Rightarrow> transfer \<Rightarrow> transfer" where
  "run [] t = t"
| "run (sg # sgs) t = run sgs (case transition sg t of Inl e \<Rightarrow> t | Inr t' \<Rightarrow> t')"

text \<open>
  Modelled from the spec: the place of a state in the lifecycle \<open>Requested\<close>, \<open>Briefing\<close>,
  \<open>SummaryReady\<close>, \<open>AwaitingAgentB\<close>, \<open>HandingOff\<close>, \<open>Completed\<close>; the two states that
  end a Transfer early come last.
\<close>

fun rank :: "transfer_state \<Rightarrow> nat" where
  "rank Requested = 0"
| "rank Briefing = 1"
| "rank SummaryReady = 2"
| "rank AwaitingAgentB = 3"
| "rank HandingOff = 4"
| "rank Completed = 5"
| "rank Cancelled = 6"
| "rank Failed = 6"

section \<open>Auxiliary definitions of the proofs\<close>

text \<open>
  The mounted panel \<open>t\<close> milliseconds after the request, in closed form; lemma
  \<open>elapse_mounted\<close> proves it equal to the simulation.
\<close>

definition stage_at :: "nat \<Rightarrow> stage" where
  "stage_at t = (if t < 2000 then requested else if t < 7000 then briefing
                 else if t < 10000 then connecting else completed)"

definition status_at :: "nat \<Rightarrow> transfer_status" where
  "status_at t =
     \<lparr>transferStage = stage_at t, timeElapsed = t div 1000,
      ticker = Some (1000 - t mod 1000),
      timeouts = (if t < 2000 then [(2000 - t, briefing)]
                  else if t < 7000 then [(7000 - t, connecting)]
                  else if t < 10000 then [(10000 - t, completed)] else [])\<rparr>"

text \<open>
  The invariant of the state machine: before \<open>AwaitingAgentB\<close> no Grant has been issued
  to Agent B, from \<open>SummaryReady\<close> on the summary is stored, and a Grant to Agent B is
  never there without the summary.
\<close>

definition grants_ordered :: "transfer \<Rightarrow> bool" where
  "grants_ordered t \<longleftrightarrow>
     (state t \<in> {Requested, Briefing, SummaryReady} \<longrightarrow>
        (\<forall>r. (agent_b t, r) \<notin> set (grants t))) \<and>
     (state t \<in> {SummaryReady, AwaitingAgentB, HandingOff, Completed} \<longrightarrow>
        summary_text t \<noteq> None) \<and>
     ((\<exists>r. (agent_b t, r) \<in> set (grants t)) \<longrightarrow> summary_text t \<noteq> None)"

section \<open>Properties of the token endpoints\<close>

subsection \<open>What a successful response carries\<close>

lemma POST_issued:
  assumes "issued (fst (POST e signs req)) = Some j"
  obtains b i r where "req = Some b" "body_identity b = Some i" "body_room b = Some r" "i \<noteq> []" "r \<noteq> []"
    "j = Jwt \<lparr>apiKey = LIVEKIT_API_KEY e, apiSecret = LIVEKIT_API_SECRET e, identity = i,
              name = None, ttl = Some ''24h'',
              video = Some \<lparr>room = r, roomJoin = True, canPublish = True, canSubscribe = True,
                            canPublishData = True, canUpdateOwnMetadata = None\<rparr>\<rparr>"
  using assms
  by (auto simp: POST_def falsy_def AccessToken_def addGrant_def Let_def
           split: option.splits if_splits)

lemma GET_issued:
  assumes "fst (GET e signs rn uid t) = Some r"
  obtains u where "uid = Some u" "u \<noteq> []"
    "r = Json 200 (RoomTokenBody rn (Jwt \<lparr>apiKey = LIVEKIT_API_KEY e, apiSecret = LIVEKIT_API_SECRET e,
              identity = u, name = Some u, ttl = None,
              video = Some \<lparr>room = rn, roomJoin = True, canPublish = True, canSubscribe = True,
                            canPublishData = True, canUpdateOwnMetadata = Some True\<rparr>\<rparr>))"
  using assms
  by (auto simp: GET_def falsy_def AccessToken_def addGrant_def Let_def
           split: option.splits if_splits prod.splits bool.splits)

lemma POST_missing_room_or_identity:
  "falsy (body_room b) \<or> falsy (body_identity b) \<Longrightarrow>
     fst (POST e signs (Some b)) = Json 400 (ErrorBody ''Room and identity are required'')"
  by (auto simp: POST_def)

lemma POST_missing_credentials:
  "\<not> falsy (body_room b) \<Longrightarrow> \<not> falsy (body_identity b) \<Longrightarrow>
   falsy (LIVEKIT_API_KEY e) \<or> falsy (LIVEKIT_API_SECRET e) \<or> falsy (NEXT_PUBLIC_LIVEKIT_URL e) \<Longrightarrow>
     status_code (fst (POST e signs (Some b))) = 500 \<and> issued (fst (POST e signs (Some b))) = None"
  by (auto simp: POST_def)

subsection \<open>C7: a grant is for one identity and one room\<close>

text \<open>
  Claim C7. Every issued Grant authorizes exactly one (identity, room) pair. A token
  returned by \<open>POST\<close> admits exactly the identity and the room of the request body; a token
  returned by \<open>GET\<close> admits exactly the user id of the query and the room created for it.
  The token is a value: nothing changes it after it has been returned, and since it admits
  one room only, no issuance serves two rooms.
\<close>

theorem grant_single_pair:
  "(issued (fst (POST e signs req)) = Some j \<longrightarrow>
      (\<exists>b i r. req = Some b \<and> body_identity b = Some i \<and> body_room b = Some r \<and>
         (\<forall>i' r'. authorizes j i' r' = (i' = i \<and> r' = r)))) \<and>
   (fst (GET e' signs' rn uid t) = Some resp \<longrightarrow>
      (\<exists>j'. issued resp = Some j' \<and>
         (\<forall>i' r'. authorizes j' i' r' = (uid = Some i' \<and> r' = rn))))"
proof (intro conjI impI)
  assume "issued (fst (POST e signs req)) = Some j"
  then show "\<exists>b i r. req = Some b \<and> body_identity b = Some i \<and> body_room b = Some r \<and>
         (\<forall>i' r'. authorizes j i' r' = (i' = i \<and> r' = r))"
    by (elim POST_issued) auto
next
  assume "fst (GET e' signs' rn uid t) = Some resp"
  then show "\<exists>j'. issued resp = Some j' \<and>
         (\<forall>i' r'. authorizes j' i' r' = (uid = Some i' \<and> r' = rn))"
    by (elim GET_issued) auto
qed

theorem grant_single_pair_witness:
  "issued (fst (POST
       \<lparr>LIVEKIT_API_KEY = Some ''key'', LIVEKIT_API_SECRET = Some ''secret'',
        NEXT_PUBLIC_LIVEKIT_URL = Some ''wss://lk'', LIVEKIT_URL = Some ''wss://lk''\<rparr>
       (\<lambda>tok. True)
       (Some \<lparr>body_room = Some ''support-1'', body_identity = Some ''agent-a''\<rparr>)))
     = Some (Jwt \<lparr>apiKey = Some ''key'', apiSecret = Some ''secret'', identity = ''agent-a'',
                  name = None, ttl = Some ''24h'',
                  video = Some \<lparr>room = ''support-1'', roomJoin = True, canPublish = True,
                     canSubscribe = True, canPublishData = True,
                     canUpdateOwnMetadata = None\<rparr>\<rparr>) \<and>
   (\<exists>b i r. Some \<lparr>body_room = Some ''support-1'', body_identity = Some ''agent-a''\<rparr> = Some b \<and>
      body_identity b = Some i \<and> body_room b = Some r \<and>
      (\<forall>i' r'. authorizes
          (Jwt \<lparr>apiKey = Some ''key'', apiSecret = Some ''secret'', identity = ''agent-a'',
                  name = None, ttl = Some ''24h'',
                  video = Some \<lparr>room = ''support-1'', roomJoin = True, canPublish = True,
                     canSubscribe = True, canPublishData = True,
                     canUpdateOwnMetadata = None\<rparr>\<rparr>) i' r'
         = (i' = i \<and> r' = r))) \<and>
   (\<exists>resp. fst (GET
       \<lparr>LIVEKIT_API_KEY = Some ''key'', LIVEKIT_API_SECRET = Some ''secret'',
        NEXT_PUBLIC_LIVEKIT_URL = Some ''wss://lk'', LIVEKIT_URL = Some ''wss://lk''\<rparr>
       (\<lambda>tok. True) ''room-9'' (Some ''u1'')
       \<lparr>rooms = [], calls = 0, outcomes = [True]\<rparr>) = Some resp \<and>
      (\<exists>j'. issued resp = Some j' \<and>
         (\<forall>i' r'. authorizes j' i' r' = (Some ''u1'' = Some i' \<and> r' = ''room-9''))))"
proof -
  let ?e = "\<lparr>LIVEKIT_API_KEY = Some ''key'', LIVEKIT_API_SECRET = Some ''secret'',
        NEXT_PUBLIC_LIVEKIT_URL = Some ''wss://lk'', LIVEKIT_URL = Some ''wss://lk''\<rparr>"
  let ?req = "Some \<lparr>body_room = Some ''support-1'', body_identity = Some ''agent-a''\<rparr>"
  let ?j = "Jwt \<lparr>apiKey = Some ''key'', apiSecret = Some ''secret'', identity = ''agent-a'',
                  name = None, ttl = Some ''24h'',
                  video = Some \<lparr>room = ''support-1'', roomJoin = True, canPublish = True,
                     canSubscribe = True, canPublishData = True,
                     canUpdateOwnMetadata = None\<rparr>\<rparr>"
  let ?t = "\<lparr>rooms = [], calls = 0, outcomes = [True]\<rparr>"
  have p: "issued (fst (POST ?e (\<lambda>tok. True) ?req)) = Some ?j"
    by (simp add: POST_def falsy_def AccessToken_def addGrant_def)
  obtain resp where g: "fst (GET ?e (\<lambda>tok. True) ''room-9'' (Some ''u1'') ?t) = Some resp"
    by (simp add: GET_def falsy_def createRoom_def AccessToken_def addGrant_def)
  note th = grant_single_pair [of ?e "\<lambda>tok. True" ?req ?j ?e "\<lambda>tok. True" "''room-9''" "Some ''u1''" ?t resp]
  show ?thesis
  proof (intro conjI)
    show "issued (fst (POST ?e (\<lambda>tok. True) ?req)) = Some ?j" by (fact p)
    show "\<exists>b i r. ?req = Some b \<and> body_identity b = Some i \<and> body_room b = Some r \<and>
      (\<forall>i' r'. authorizes ?j i' r' = (i' = i \<and> r' = r))"
      using th [THEN conjunct1, THEN mp, OF p] .
    show "\<exists>resp. fst (GET ?e (\<lambda>tok. True) ''room-9'' (Some ''u1'') ?t) = Some resp \<and>
      (\<exists>j'. issued resp = Some j' \<and>
         (\<forall>i' r'. authorizes j' i' r' = (Some ''u1'' = Some i' \<and> r' = ''room-9'')))"
      using g th [THEN conjunct2, THEN mp, OF g] by (intro exI [of _ resp] conjI)
  qed
qed

subsection \<open>C10: the permissions do not depend on who asks\<close>

text \<open>
  Claim C10. Two successful requests to \<open>POST\<close> for the same room get the same video grant
  (\<open>roomJoin\<close>, \<open>canPublish\<close>, \<open>canSubscribe\<close>, \<open>canPublishData\<close>, all true) and the same
  time to live of 24 hours, whatever the two identities are.
\<close>

theorem same_room_same_permissions:
  assumes "fst (POST e1 s1 (Some b1)) = Json 200 (TokenBody (Jwt t1))"
    and "fst (POST e2 s2 (Some b2)) = Json 200 (TokenBody (Jwt t2))"
    and "body_room b1 = body_room b2"
  shows "video t1 = video t2 \<and> ttl t1 = Some ''24h'' \<and> ttl t2 = Some ''24h'' \<and>
         (\<exists>g. video t1 = Some g \<and> roomJoin g \<and> canPublish g \<and> canSubscribe g \<and> canPublishData g)"
proof -
  from assms(1) have "issued (fst (POST e1 s1 (Some b1))) = Some (Jwt t1)" by simp
  moreover from assms(2) have "issued (fst (POST e2 s2 (Some b2))) = Some (Jwt t2)" by simp
  ultimately show ?thesis using assms(3)
    by (elim POST_issued) auto
qed

theorem same_room_same_permissions_witness:
  "video \<lparr>apiKey = Some ''key'', apiSecret = Some ''secret'', identity = ''agent-a'',
          name = None, ttl = Some ''24h'',
          video = Some \<lparr>room = ''support-1'', roomJoin = True, canPublish = True,
             canSubscribe = True, canPublishData = True, canUpdateOwnMetadata = None\<rparr>\<rparr>
   = video \<lparr>apiKey = Some ''key'', apiSecret = Some ''secret'', identity = ''customer-7'',
          name = None, ttl = Some ''24h'',
          video = Some \<lparr>room = ''support-1'', roomJoin = True, canPublish = True,
             canSubscribe = True, canPublishData = True, canUpdateOwnMetadata = None\<rparr>\<rparr> \<and>
   fst (POST
       \<lparr>LIVEKIT_API_KEY = Some ''key'', LIVEKIT_API_SECRET = Some ''secret'',
        NEXT_PUBLIC_LIVEKIT_URL = Some ''wss://lk'', LIVEKIT_URL = None\<rparr>
       (\<lambda>tok. True)
       (Some \<lparr>body_room = Some ''support-1'', body_identity = Some ''customer-7''\<rparr>))
   = Json 200 (TokenBody (Jwt \<lparr>apiKey = Some ''key'', apiSecret = Some ''secret'',
          identity = ''customer-7'', name = None, ttl = Some ''24h'',
          video = Some \<lparr>room = ''support-1'', roomJoin = True, canPublish = True,
             canSubscribe = True, canPublishData = True, canUpdateOwnMetadata = None\<rparr>\<rparr>))"
proof -
  let ?e = "\<lparr>LIVEKIT_API_KEY = Some ''key'', LIVEKIT_API_SECRET = Some ''secret'',
        NEXT_PUBLIC_LIVEKIT_URL = Some ''wss://lk'', LIVEKIT_URL = None\<rparr>"
  let ?b1 = "\<lparr>body_room = Some ''support-1'', body_identity = Some ''agent-a''\<rparr>"
  let ?b2 = "\<lparr>body_room = Some ''support-1'', body_identity = Some ''customer-7''\<rparr>"
  let ?g = "\<lparr>room = ''support-1'', roomJoin = True, canPublish = True,
             canSubscribe = True, canPublishData = True, canUpdateOwnMetadata = None\<rparr>"
  let ?t1 = "\<lparr>apiKey = Some ''key'', apiSecret = Some ''secret'', identity = ''agent-a'',
          name = None, ttl = Some ''24h'', video = Some ?g\<rparr>"
  let ?t2 = "\<lparr>apiKey = Some ''key'', apiSecret = Some ''secret'', identity = ''customer-7'',
          name = None, ttl = Some ''24h'', video = Some ?g\<rparr>"
  have a: "fst (POST ?e (\<lambda>tok. True) (Some ?b1)) = Json 200 (TokenBody (Jwt ?t1))"
    by (simp add: POST_def falsy_def AccessToken_def addGrant_def)
  have b: "fst (POST ?e (\<lambda>tok. True) (Some ?b2)) = Json 200 (TokenBody (Jwt ?t2))"
    by (simp add: POST_def falsy_def AccessToken_def addGrant_def)
  have c: "body_room ?b1 = body_room ?b2" by simp
  from same_room_same_permissions [OF a b c] b show ?thesis by simp
qed

subsection \<open>C9: a request without an identity or a room\<close>

text \<open>
  Claim C9 asks for a client error when the identity or the room is empty or absent.
  \<open>POST\<close> answers 400 (\<open>POST_missing_room_or_identity\<close>). \<open>GET\<close> throws on a missing or
  empty \<open>userid\<close>, but its \<open>catch\<close> block only writes to the console: the handler returns
  no response, and the transport is left as it was.
\<close>

theorem GET_missing_userid:
  "falsy uid \<Longrightarrow> fst (GET e signs rn uid t) = None \<and> snd (snd (GET e signs rn uid t)) = t"
  by (auto simp: GET_def falsy_def split: option.splits)

theorem GET_missing_userid_witness:
  "falsy (Some '''') \<and>
   GET \<lparr>LIVEKIT_API_KEY = Some ''key'', LIVEKIT_API_SECRET = Some ''secret'',
        NEXT_PUBLIC_LIVEKIT_URL = None, LIVEKIT_URL = Some ''wss://lk''\<rparr>
       (\<lambda>tok. True) ''room-9'' (Some '''') \<lparr>rooms = [], calls = 0, outcomes = [True]\<rparr>
   = (None, ['''', ''Error error no user id''], \<lparr>rooms = [], calls = 0, outcomes = [True]\<rparr>)"
proof -
  have f: "falsy (Some '''')" by (simp add: falsy_def)
  from GET_missing_userid [OF f] f show ?thesis
    by (simp add: GET_def)
qed

subsection \<open>C6: missing signing credentials\<close>

text \<open>
  Claim C6 asks for a configuration error when the API key or secret is unavailable.
  \<open>POST\<close> checks both and answers 500 (\<open>POST_missing_credentials\<close>). \<open>GET\<close> checks
  \<open>LIVEKIT_URL\<close> only. Without a key or a secret it mints no token and sends nothing to
  the transport, and it returns no response: for a request with a user id and with
  \<open>LIVEKIT_URL\<close> set, \<open>createRoom\<close> throws the SDK's error about the missing key and
  secret, and the \<open>catch\<close> block only writes it to the console.
\<close>

theorem GET_without_credentials:
  "falsy (LIVEKIT_API_KEY e) \<or> falsy (LIVEKIT_API_SECRET e) \<Longrightarrow>
     fst (GET e signs rn uid t) = None \<and> snd (snd (GET e signs rn uid t)) = t"
  by (auto simp: GET_def createRoom_def split: option.splits)

theorem GET_without_credentials_witness:
  "falsy None \<and>
   GET \<lparr>LIVEKIT_API_KEY = None, LIVEKIT_API_SECRET = None,
        NEXT_PUBLIC_LIVEKIT_URL = None, LIVEKIT_URL = Some ''wss://lk''\<rparr>
       (\<lambda>tok. True) ''room-9'' (Some ''u1'') \<lparr>rooms = [], calls = 0, outcomes = [True]\<rparr>
   = (None, [''u1'', ''Error api-key and api-secret must be set''],
      \<lparr>rooms = [], calls = 0, outcomes = [True]\<rparr>)"
proof -
  let ?e = "\<lparr>LIVEKIT_API_KEY = None, LIVEKIT_API_SECRET = None,
        NEXT_PUBLIC_LIVEKIT_URL = None, LIVEKIT_URL = Some ''wss://lk''\<rparr>"
  have f: "falsy None" by (simp add: falsy_def)
  then have "falsy (LIVEKIT_API_KEY ?e) \<or> falsy (LIVEKIT_API_SECRET ?e)" by simp
  from GET_without_credentials [OF this] f show ?thesis
    by (simp add: GET_def createRoom_def falsy_def)
qed

text \<open>
  Whatever the environment, the transport and the SDK, \<open>GET\<close> returns a success or
  nothing: it has no response for an error.
\<close>

lemma GET_never_answers_with_an_error:
  "fst (GET e signs rn uid t) = None \<or>
   (\<exists>j. fst (GET e signs rn uid t) = Some (Json 200 (RoomTokenBody rn j)))"
  by (auto simp: GET_def Let_def split: option.splits prod.splits bool.splits)

subsection \<open>C4: a failing \<open>createRoom\<close>\<close>

text \<open>
  Claim C4, as amended. When the transport's \<open>createRoom\<close> fails for a request that has
  a user id, with \<open>LIVEKIT_URL\<close> set, \<open>GET\<close> has called it exactly once, the transport
  holds the rooms it held before, and the handler returns no response: no token, no
  success. (Where the call fails for want of a key or a secret, the transport has
  received no request at all.)
\<close>

theorem GET_createRoom_failure:
  assumes "uid = Some u" and "u \<noteq> []" and "\<not> falsy (LIVEKIT_URL e)"
    and "fst (createRoom (LIVEKIT_API_KEY e) (LIVEKIT_API_SECRET e) t rn) \<noteq> None"
  shows "fst (GET e signs rn uid t) = None \<and>
         calls (snd (snd (GET e signs rn uid t)))
           = (if falsy (LIVEKIT_API_KEY e) \<or> falsy (LIVEKIT_API_SECRET e) then calls t
              else Suc (calls t)) \<and>
         rooms (snd (snd (GET e signs rn uid t))) = rooms t"
  using assms
  by (auto simp: GET_def createRoom_def split: list.splits prod.splits if_splits)

theorem GET_createRoom_failure_witness:
  "fst (createRoom (Some ''key'') (Some ''secret'')
          \<lparr>rooms = [''r0''], calls = 3, outcomes = [False, True]\<rparr> ''room-9'') \<noteq> None \<and>
   fst (GET \<lparr>LIVEKIT_API_KEY = Some ''key'', LIVEKIT_API_SECRET = Some ''secret'',
        NEXT_PUBLIC_LIVEKIT_URL = None, LIVEKIT_URL = Some ''wss://lk''\<rparr>
       (\<lambda>tok. True) ''room-9'' (Some ''u1'')
       \<lparr>rooms = [''r0''], calls = 3, outcomes = [False, True]\<rparr>) = None \<and>
   calls (snd (snd (GET \<lparr>LIVEKIT_API_KEY = Some ''key'', LIVEKIT_API_SECRET = Some ''secret'',
        NEXT_PUBLIC_LIVEKIT_URL = None, LIVEKIT_URL = Some ''wss://lk''\<rparr>
       (\<lambda>tok. True) ''room-9'' (Some ''u1'')
       \<lparr>rooms = [''r0''], calls = 3, outcomes = [False, True]\<rparr>))) = 4 \<and>
   rooms (snd (snd (GET \<lparr>LIVEKIT_API_KEY = Some ''key'', LIVEKIT_API_SECRET = Some ''secret'',
        NEXT_PUBLIC_LIVEKIT_URL = None, LIVEKIT_URL = Some ''wss://lk''\<rparr>
       (\<lambda>tok. True) ''room-9'' (Some ''u1'')
       \<lparr>rooms = [''r0''], calls = 3, outcomes = [False, True]\<rparr>))) = [''r0'']"
proof -
  let ?e = "\<lparr>LIVEKIT_API_KEY = Some ''key'', LIVEKIT_API_SECRET = Some ''secret'',
        NEXT_PUBLIC_LIVEKIT_URL = None, LIVEKIT_URL = Some ''wss://lk''\<rparr>"
  let ?t = "\<lparr>rooms = [''r0''], calls = 3, outcomes = [False, True]\<rparr>"
  have a: "Some ''u1'' = Some ''u1''" by simp
  have b: "''u1'' \<noteq> []" by simp
  have c: "\<not> falsy (LIVEKIT_URL ?e)" by (simp add: falsy_def)
  have d: "fst (createRoom (LIVEKIT_API_KEY ?e) (LIVEKIT_API_SECRET ?e) ?t ''room-9'') \<noteq> None"
    by (simp add: createRoom_def falsy_def)
  from GET_createRoom_failure [OF a b c d, of "\<lambda>tok. True"] d show ?thesis
    by (simp add: falsy_def)
qed

text \<open>
  The claim as stated has the call retried once and a transport error returned to the
  caller. Here the first call fails and a second would succeed: \<open>GET\<close> makes one call and
  returns nothing.
\<close>

theorem GET_no_retry_counterexample:
  "GET \<lparr>LIVEKIT_API_KEY = Some ''key'', LIVEKIT_API_SECRET = Some ''secret'',
        NEXT_PUBLIC_LIVEKIT_URL = None, LIVEKIT_URL = Some ''wss://lk''\<rparr>
       (\<lambda>tok. True) ''room-9'' (Some ''u1'')
       \<lparr>rooms = [], calls = 0, outcomes = [False, True]\<rparr>
   = (None, [''u1'', ''Error createRoom''], \<lparr>rooms = [], calls = 1, outcomes = [True]\<rparr>)"
  by (simp add: GET_def falsy_def createRoom_def)

section \<open>Properties of the participant lists\<close>

text \<open>\<open>includes_str\<close> is containment of a contiguous substring.\<close>

lemma includes_iff: "includes_str s sub \<longleftrightarrow> (\<exists>a b. s = a @ sub @ b)"
proof (induction s)
  case Nil
  then show ?case by auto
next
  case (Cons c cs)
  show ?case
  proof
    assume "includes_str (c # cs) sub"
    then consider "prefix sub (c # cs)" | "includes_str cs sub" by auto
    then show "\<exists>a b. c # cs = a @ sub @ b"
    proof cases
      case 1
      then obtain b where "c # cs = sub @ b" by (auto simp: prefix_def)
      then have "c # cs = [] @ sub @ b" by simp
      then show ?thesis by blast
    next
      case 2
      with Cons.IH obtain a b where "cs = a @ sub @ b" by auto
      then have "c # cs = (c # a) @ sub @ b" by simp
      then show ?thesis by blast
    qed
  next
    assume "\<exists>a b. c # cs = a @ sub @ b"
    then obtain a b where ab: "c # cs = a @ sub @ b" by auto
    show "includes_str (c # cs) sub"
    proof (cases a)
      case Nil
      with ab have "prefix sub (c # cs)" by (simp add: prefix_def)
      then show ?thesis by simp
    next
      case (Cons x a')
      with ab have "cs = a' @ sub @ b" by simp
      with Cons.IH have "includes_str cs sub" by blast
      then show ?thesis by simp
    qed
  qed
qed

subsection \<open>C8: who counts as an agent\<close>

text \<open>
  Claim C8, as amended. The pages classify a participant by its identity string: it is
  listed as an agent exactly when the identity contains \<open>agent\<close>, and as a customer
  otherwise; every participant is in exactly one of the two lists. The participant
  record carries no role, and the tokens of \<open>POST\<close> carry none either.
\<close>

theorem classification_by_identity:
  "(p \<in> set (agents ps) \<longleftrightarrow> p \<in> set ps \<and> (\<exists>a b. p_identity p = a @ ''agent'' @ b)) \<and>
   (p \<in> set (customers ps) \<longleftrightarrow> p \<in> set ps \<and> \<not> (\<exists>a b. p_identity p = a @ ''agent'' @ b)) \<and>
   length (agents ps) + length (customers ps) = length ps"
proof (intro conjI)
  show "p \<in> set (agents ps) \<longleftrightarrow> p \<in> set ps \<and> (\<exists>a b. p_identity p = a @ ''agent'' @ b)"
    by (simp add: agents_def includes_iff)
  show "p \<in> set (customers ps) \<longleftrightarrow> p \<in> set ps \<and> \<not> (\<exists>a b. p_identity p = a @ ''agent'' @ b)"
    by (simp add: customers_def includes_iff)
  show "length (agents ps) + length (customers ps) = length ps"
    by (simp add: agents_def customers_def sum_length_filter_compl)
qed

text \<open>
  The claim as stated has a caller whose identity contains the marker word kept out of
  the agents. A caller who joined as \<open>travel-agent-customer\<close> is listed among the agents
  and is missing from the customers.
\<close>

theorem caller_listed_as_agent_counterexample:
  "agents [\<lparr>p_identity = ''travel-agent-customer'', p_isSpeaking = False\<rparr>]
     = [\<lparr>p_identity = ''travel-agent-customer'', p_isSpeaking = False\<rparr>] \<and>
   customers [\<lparr>p_identity = ''travel-agent-customer'', p_isSpeaking = False\<rparr>] = []"
  by (simp add: agents_def customers_def)

section \<open>Properties of the transfer panel\<close>

subsection \<open>The panel in closed form\<close>

lemma tick_status_at:
  "tick (status_at t) = (status_at t)\<lparr>timeElapsed := Suc t div 1000, ticker := Some (1000 - Suc t mod 1000)\<rparr>"
proof (cases "t mod 1000 = 999")
  case True
  then have "Suc t mod 1000 = 0" "Suc t div 1000 = Suc (t div 1000)"
    by (simp_all add: mod_Suc div_Suc)
  with True show ?thesis by (simp add: tick_def status_at_def)
next
  case False
  have "t mod 1000 < 1000" by simp
  with False have lt: "t mod 1000 < 999" by linarith
  then have "Suc t mod 1000 = Suc (t mod 1000)" "Suc t div 1000 = t div 1000"
    by (simp_all add: mod_Suc div_Suc)
  with lt show ?thesis by (simp add: tick_def status_at_def)
qed

lemma millisecond_status_at: "millisecond (status_at t) = status_at (Suc t)"
proof -
  consider "t < 1999" | "t = 1999" | "2000 \<le> t" "t < 6999" | "t = 6999"
    | "7000 \<le> t" "t < 9999" | "t = 9999" | "10000 \<le> t" by linarith
  then show ?thesis
    unfolding millisecond_def tick_status_at
    by cases (simp_all add: run_timeouts_def status_at_def stage_at_def)
qed

lemma elapse_status_at: "elapse n (status_at t) = status_at (t + n)"
  by (induction n arbitrary: t) (simp_all add: millisecond_status_at)

lemma mounted_status: "effect True initial_status = status_at 0"
  by (simp add: effect_def initial_status_def status_at_def stage_at_def)

lemma elapse_mounted: "elapse t (effect True initial_status) = status_at t"
  by (simp add: mounted_status elapse_status_at)

lemma elapse_idle: "elapse t (effect False initial_status) = initial_status"
  by (induction t)
     (simp_all add: effect_def initial_status_def millisecond_def tick_def run_timeouts_def)

subsection \<open>C2: what advances the stage\<close>

text \<open>
  Claim C2, as amended. Once a transfer is flagged as requested, the stage shown by
  \<open>TransferStatus\<close> advances on timers alone, with no signal from anyone: it is
  \<open>requested\<close> for the first 2000 ms, \<open>briefing\<close> until 7000 ms, \<open>connecting\<close> until
  10000 ms and \<open>completed\<close> from then on. While no transfer is requested the stage stays
  \<open>requested\<close>, however much time passes.
\<close>

theorem stages_advance_on_timers:
  "transferStage (elapse t (effect True initial_status)) =
     (if t < 2000 then requested else if t < 7000 then briefing
      else if t < 10000 then connecting else completed) \<and>
   transferStage (elapse t (effect False initial_status)) = requested"
  unfolding elapse_mounted elapse_idle
  by (simp add: status_at_def stage_at_def initial_status_def)

text \<open>
  The claim as stated has no transition happen because time has passed. Here nothing
  happens after the request but the passing of time, and the panel goes through all its
  stages.
\<close>

theorem stage_advances_without_signal_counterexample:
  "transferStage (elapse 0 (effect True initial_status)) = requested \<and>
   transferStage (elapse 2000 (effect True initial_status)) = briefing \<and>
   transferStage (elapse 7000 (effect True initial_status)) = connecting \<and>
   transferStage (elapse 10000 (effect True initial_status)) = completed"
  unfolding elapse_mounted
  by (simp add: status_at_def stage_at_def)


lemma wait_requested:
  "wait t (handleTransferRequest \<lparr>isTransferRequested = False, panel = None, toasts = []\<rparr>)
     = \<lparr>isTransferRequested = True, panel = Some (status_at t), toasts = [''Transfer Requested'']\<rparr>"
  by (simp add: wait_def handleTransferRequest_def render_def elapse_mounted)

subsection \<open>Cancelling on the page\<close>

text \<open>
  On the page a transfer can be cancelled only while the panel shows the stage
  \<open>requested\<close>: the cancel button is rendered in that stage only, and a click on it
  clears \<open>isTransferRequested\<close> and removes the panel. From 2000 ms after the request
  on there is no cancel button: no cancellation can be requested and nothing changes.
  \<open>handleCancelTransfer\<close> itself has no check and raises no error; the button is its only
  caller.
\<close>

lemma cancel_only_while_requested:
  "(click_cancel c = Some c' \<longrightarrow>
      (\<exists>s. panel c = Some s \<and> transferStage s = requested) \<and>
      c' = handleCancelTransfer c \<and> \<not> isTransferRequested c' \<and> panel c' = None) \<and>
   (panel c = Some s \<and> transferStage s \<noteq> requested \<longrightarrow> click_cancel c = None)"
  by (auto simp: click_cancel_def cancel_button_def handleCancelTransfer_def render_def
           split: option.splits if_splits)

lemma no_cancel_button_after_two_seconds:
  "2000 \<le> t \<Longrightarrow>
     click_cancel (wait t (handleTransferRequest
        \<lparr>isTransferRequested = False, panel = None, toasts = []\<rparr>)) = None"
  unfolding wait_requested
  by (simp add: click_cancel_def cancel_button_def status_at_def stage_at_def)

lemma cancel_button_before_two_seconds:
  "t < 2000 \<Longrightarrow>
     click_cancel (wait t (handleTransferRequest
        \<lparr>isTransferRequested = False, panel = None, toasts = []\<rparr>))
       = Some \<lparr>isTransferRequested = False, panel = None,
               toasts = [''Transfer Requested'', ''Transfer Cancelled'']\<rparr>"
  unfolding wait_requested
  by (simp add: click_cancel_def cancel_button_def handleCancelTransfer_def render_def
        status_at_def stage_at_def)

section \<open>Properties of the demo page\<close>

subsection \<open>The demo before and during the hand-off\<close>

text \<open>
  Before the hand-off Agent \<open>A1\<close> has two connections, to \<open>R1\<close> and to \<open>R2\<close>;
  \<open>agentARoom\<close> holds the second, since \<open>initiateTransfer\<close> stored it over the first,
  which \<open>connectAgentA\<close> had stored there.
\<close>

lemma demo_before_handoff_eq:
  "demo_before_handoff =
     (\<lparr>callerRoom = Some (''demoCaller'', ''R1''), agentARoom = Some (''A1'', ''R2''),
       agentBRoom = Some (''B1'', ''R2''), origRoomId = ''R1'',
       transferInfo = Some \<lparr>original_room_id = ''R1'', transfer_room_id = ''R2'',
              agent_a_token = (''A1'', ''R2''), agent_b_token = (''B1'', ''R2''),
              call_summary = ''forgot password''\<rparr>,
       summary = ''forgot password'', agentATrack = False, status = ''transfer_room_connected''\<rparr>,
      {(''B1'', ''R2''), (''A1'', ''R2''), (''A1'', ''R1''), (''demoCaller'', ''R1'')})"
  by (simp add: demo_before_handoff_def initiateTransfer_def connectAgentA_def initiateCall_def
        connectRoom_def settled_def initial_page_def)

lemma demo_handoff_trace:
  "map snd (leaveTransferAndComplete backend (\<lambda>t. True) (Some demo_complete) demo_before_handoff)
    = [snd demo_before_handoff,
       backend (snd demo_before_handoff),
       backend (snd demo_before_handoff) - {(''B1'', ''R2'')},
       insert (''B1'', ''R1'') (backend (snd demo_before_handoff) - {(''B1'', ''R2'')}),
       insert (''B1'', ''R1'') (backend (snd demo_before_handoff) - {(''B1'', ''R2'')})
         - {(''A1'', ''R2'')}]"
  unfolding demo_before_handoff_eq
  by (simp add: leaveTransferAndComplete_def connectRoom_def demo_complete_def Let_def)

subsection \<open>C1: the hand-off\<close>



section \<open>Properties of the state machine of the specification\<close>

subsection \<open>Transitions and the invariant\<close>

lemma transition_keeps_agents:
  "transition sg t = Inr t' \<Longrightarrow> agent_a t' = agent_a t \<and> agent_b t' = agent_b t"
  by (cases sg; cases "state t"; cases "briefing_room t")
     (auto simp: destroy_briefing_def split: if_splits)

lemma transition_next_state:
  "transition sg t = Inr t' \<Longrightarrow>
     state t' \<in> next_states (state t) \<and>
     (state t' \<in> {Cancelled, Failed} \<or> rank (state t') = Suc (rank (state t)))"
  by (cases sg; cases "state t"; cases "briefing_room t")
     (auto simp: destroy_briefing_def split: if_splits)

lemma transition_grants_ordered:
  assumes "grants_ordered t" and "agent_a t \<noteq> agent_b t" and "transition sg t = Inr t'"
  shows "grants_ordered t'"
  using assms
  by (cases sg; cases "state t"; cases "briefing_room t")
     (auto simp: grants_ordered_def destroy_briefing_def split: if_splits)

lemma run_invariant:
  assumes "grants_ordered t" and "agent_a t \<noteq> agent_b t"
  shows "grants_ordered (run sgs t) \<and> agent_a (run sgs t) = agent_a t
         \<and> agent_b (run sgs t) = agent_b t"
  using assms
proof (induction sgs arbitrary: t)
  case Nil
  then show ?case by simp
next
  case (Cons sg sgs)
  show ?case
  proof (cases "transition sg t")
    case (Inl e)
    with Cons show ?thesis by simp
  next
    case (Inr t')
    from Cons.prems Inr have o: "grants_ordered t'"
      by (rule transition_grants_ordered)
    from Inr have k: "agent_a t' = agent_a t" "agent_b t' = agent_b t"
      using transition_keeps_agents by blast+
    with Cons.prems have "agent_a t' \<noteq> agent_b t'" by simp
    with Cons.IH [of t'] o have "grants_ordered (run sgs t') \<and> agent_a (run sgs t') = agent_a t'
         \<and> agent_b (run sgs t') = agent_b t'" by blast
    with k Inr show ?thesis by simp
  qed
qed

lemma new_transfer_ordered: "grants_ordered (new_transfer a b orig)"
  by (simp add: grants_ordered_def new_transfer_def)

subsection \<open>C3: cancelling a Transfer\<close>



subsection \<open>C5: the summary comes before Agent B's grant\<close>

text \<open>
  On the demo page the token that admits Agent B to the transfer room arrives in the
  same response as the summary, and the page has stored the summary before it connects
  Agent B.
\<close>

lemma summary_stored_before_agent_B_connects:
  "c \<in> set (initiateTransfer admits (Some r) (p, w)) \<Longrightarrow> agentBRoom (fst c) \<noteq> agentBRoom p \<Longrightarrow>
     transferInfo (fst c) = Some r \<and> summary (fst c) = call_summary r"
  by (auto simp: initiateTransfer_def connectRoom_def Let_def split: if_splits option.splits)

text \<open>
  Claim C5, for the state machine modelled from the specification. In every state that a
  Transfer for two different agents reaches, by whatever signals, a Grant issued to Agent
  B means that the summary is stored and that the Transfer has left \<open>Requested\<close>,
  \<open>Briefing\<close> and \<open>SummaryReady\<close>. Every transition leads to a state the table lists as
  next, and it skips none: it ends the Transfer (\<open>Cancelled\<close>, \<open>Failed\<close>) or moves to the
  state that comes next in the lifecycle.
\<close>

theorem agent_B_grant_after_summary:
  assumes "a \<noteq> b"
  shows "((b, r) \<in> set (grants (run sgs (new_transfer a b orig))) \<longrightarrow>
            summary_text (run sgs (new_transfer a b orig)) \<noteq> None \<and>
            state (run sgs (new_transfer a b orig)) \<notin> {Requested, Briefing, SummaryReady}) \<and>
         (transition sg t = Inr t' \<longrightarrow>
            state t' \<in> next_states (state t) \<and>
            (state t' \<in> {Cancelled, Failed} \<or> rank (state t') = Suc (rank (state t))))"
proof (intro conjI impI)
  let ?t = "run sgs (new_transfer a b orig)"
  assume g: "(b, r) \<in> set (grants ?t)"
  have a: "agent_a (new_transfer a b orig) \<noteq> agent_b (new_transfer a b orig)"
    using assms by (simp add: new_transfer_def)
  from run_invariant [OF new_transfer_ordered a, of sgs]
  have inv: "grants_ordered ?t" and b: "agent_b ?t = b"
    by (simp_all add: new_transfer_def)
  from inv b g show "summary_text ?t \<noteq> None"
    unfolding grants_ordered_def by auto
  from inv b g show "state ?t \<notin> {Requested, Briefing, SummaryReady}"
    unfolding grants_ordered_def by auto
next
  assume "transition sg t = Inr t'"
  then show "state t' \<in> next_states (state t)"
    and "state t' \<in> {Cancelled, Failed} \<or> rank (state t') = Suc (rank (state t))"
    using transition_next_state by blast+
qed

theorem agent_B_grant_after_summary_witness:
  "''A1'' \<noteq> ''B1'' \<and>
   (''B1'', ''R2'') \<in> set (grants (run [BriefingRoomCreated ''R2'', SummaryObtained ''forgot password'',
                                         GrantAgentB] (new_transfer ''A1'' ''B1'' ''R1''))) \<and>
   summary_text (run [BriefingRoomCreated ''R2'', SummaryObtained ''forgot password'', GrantAgentB]
                   (new_transfer ''A1'' ''B1'' ''R1'')) \<noteq> None \<and>
   state (run [BriefingRoomCreated ''R2'', SummaryObtained ''forgot password'', GrantAgentB]
                   (new_transfer ''A1'' ''B1'' ''R1'')) \<notin> {Requested, Briefing, SummaryReady} \<and>
   (\<exists>t'. transition (SummaryObtained ''forgot password'')
            (run [BriefingRoomCreated ''R2''] (new_transfer ''A1'' ''B1'' ''R1'')) = Inr t' \<and>
          state t' \<in> next_states
            (state (run [BriefingRoomCreated ''R2''] (new_transfer ''A1'' ''B1'' ''R1''))) \<and>
          state t' = SummaryReady)"
proof -
  let ?sgs = "[BriefingRoomCreated ''R2'', SummaryObtained ''forgot password'', GrantAgentB]"
  let ?t0 = "new_transfer ''A1'' ''B1'' ''R1''"
  let ?t1 = "run [BriefingRoomCreated ''R2''] ?t0"
  have ab: "''A1'' \<noteq> ''B1''" by simp
  have g: "(''B1'', ''R2'') \<in> set (grants (run ?sgs ?t0))"
    by (simp add: new_transfer_def)
  obtain t' where tr: "transition (SummaryObtained ''forgot password'') ?t1 = Inr t'"
    and st: "state t' = SummaryReady"
    by (simp add: new_transfer_def)
  note th = agent_B_grant_after_summary [OF ab, of "''R2''" ?sgs "''R1''"
      "SummaryObtained ''forgot password''" ?t1 t']
  from th g have a: "summary_text (run ?sgs ?t0) \<noteq> None"
    and b: "state (run ?sgs ?t0) \<notin> {Requested, Briefing, SummaryReady}" by blast+
  from th tr have c: "state t' \<in> next_states (state ?t1)" by blast
  from tr st c have d: "\<exists>t'. transition (SummaryObtained ''forgot password'') ?t1 = Inr t' \<and>
          state t' \<in> next_states (state ?t1) \<and> state t' = SummaryReady" by blast
  from ab g a b d show ?thesis by (intro conjI)
qed

end
